theory Spec2Isabelle
  imports Complex_Main "HOL-Library.Sublist"
begin

section \<open>JavaScript values used by the storefront\<close>

text \<open>
  Strings are lists of characters. A value that may be \<^verbatim>\<open>undefined\<close> or \<^verbatim>\<open>null\<close> is an
  option. JavaScript's truthiness test on such a string (\<^verbatim>\<open>if (x)\<close>, \<^verbatim>\<open>!x\<close>, \<^verbatim>\<open>x || y\<close>)
  fails for \<^verbatim>\<open>undefined\<close> and for the empty string.
\<close>

definition truthy :: "string option \<Rightarrow> bool" where
  "truthy x = (case x of None \<Rightarrow> False | Some t \<Rightarrow> t \<noteq> [])"

definition falsy :: "string option \<Rightarrow> bool" where
  "falsy x = (case x of None \<Rightarrow> True | Some t \<Rightarrow> t = [])"

text \<open>A thrown exception is a value; \<open>Inl\<close> of a result is a throw, \<open>Inr\<close> a normal return.\<close>

datatype exn = Error string

section \<open>The remote model API (services/geminiService.ts)\<close>

text \<open>
  The hosted model is an external collaborator. Every \<^verbatim>\<open>await\<close> of an SDK call
  (\<^verbatim>\<open>ai.models.generateContent\<close>, \<^verbatim>\<open>chat.sendMessage\<close>) is a request; the remote side answers
  with a response or the call throws. The answer may depend on everything exchanged so far,
  so the remote is a function of the trace and the request. The trace records each request
  together with its outcome, in order; a function that leaves the trace as it found it has
  not contacted the remote API.
\<close>

typedecl Product

record function_call =
  fc_name :: string
  fc_args :: "(string \<times> string) list option"

record response =
  resp_text :: "string option"
  functionCalls :: "function_call list"
  inlineData_parts :: "string option list"

datatype prompt =
    TranslateBatchPrompt "string list" string
  | ZipPrompt string
  | ShippingPrompt string string "string option"
  | ProductDetailsPrompt string "string list" string
  | ContentPrompt string string
  | ImagePrompt "string option" "string option"

datatype message =
    UserMessage string "string option"
  | FunctionResponse string string

datatype request =
    GenerateContent string prompt
  | ChatSendMessage "(string \<times> string) list" "Product option" message

type_synonym outcome = "exn + response"
type_synonym trace = "(request \<times> outcome) list"
type_synonym remote = "trace \<Rightarrow> request \<Rightarrow> outcome"
type_synonym 'a io = "remote \<Rightarrow> trace \<Rightarrow> trace \<times> (exn + 'a)"

definition return_io :: "'a \<Rightarrow> 'a io" where
  "return_io x = (\<lambda>rem tr. (tr, Inr x))"

definition throw_io :: "exn \<Rightarrow> 'a io" where
  "throw_io e = (\<lambda>rem tr. (tr, Inl e))"

definition of_result :: "exn + 'a \<Rightarrow> 'a io" where
  "of_result r = (\<lambda>rem tr. (tr, r))"

definition bind_io :: "'a io \<Rightarrow> ('a \<Rightarrow> 'b io) \<Rightarrow> 'b io" where
  "bind_io m f = (\<lambda>rem tr. case m rem tr of
                     (tr', Inl e) \<Rightarrow> (tr', Inl e)
                   | (tr', Inr x) \<Rightarrow> f x rem tr')"

definition try_catch :: "'a io \<Rightarrow> (exn \<Rightarrow> 'a io) \<Rightarrow> 'a io" where
  "try_catch m h = (\<lambda>rem tr. case m rem tr of
                     (tr', Inl e) \<Rightarrow> h e rem tr'
                   | (tr', Inr x) \<Rightarrow> (tr', Inr x))"

definition await_call :: "request \<Rightarrow> response io" where
  "await_call req = (\<lambda>rem tr. (tr @ [(req, rem tr req)], rem tr req))"

text \<open>
  \<^verbatim>\<open>process.env.API_KEY\<close> is read inside its own \<^verbatim>\<open>try\<close>: when the access throws, the key
  stays \<^verbatim>\<open>undefined\<close>.
\<close>

datatype process_env = EnvThrows | Env "string option"

definition read_API_KEY :: "process_env \<Rightarrow> string option" where
  "read_API_KEY penv = (case penv of EnvThrows \<Rightarrow> None | Env k \<Rightarrow> k)"

record reply =
  reply_text :: "string option"
  reply_image :: "string option"

definition MISSING_KEY_MESSAGE :: string where
  "MISSING_KEY_MESSAGE = ''I'm sorry, I cannot connect to the server right now. (Missing API Key)''"

definition APOLOGY_MESSAGE :: string where
  "APOLOGY_MESSAGE = ''I apologize, but I seem to be having trouble reaching our archives at the moment.''"

text \<open>
  \<^verbatim>\<open>generateImageWithNanoBanana\<close>: one request to the image model inside a \<^verbatim>\<open>try\<close>; the first
  part of the answer that carries image data is returned, and a failure is logged and
  turned into \<^verbatim>\<open>undefined\<close>.
\<close>

definition generateImageWithNanoBanana ::
  "string option \<Rightarrow> string option \<Rightarrow> string option \<Rightarrow> string option io" where
  "generateImageWithNanoBanana apiKey prompt inputImageBase64 =
     try_catch
       (bind_io
          (await_call (GenerateContent ''gemini-2.5-flash-image''
             (ImagePrompt (if truthy inputImageBase64 then inputImageBase64 else None) prompt)))
          (\<lambda>response. return_io
             (case filter truthy (inlineData_parts response) of
                [] \<Rightarrow> None
              | d # _ \<Rightarrow> d)))
       (\<lambda>e. return_io None)"

definition sendMessageToGemini ::
  "process_env \<Rightarrow> (string \<times> string) list \<Rightarrow> string \<Rightarrow> Product option \<Rightarrow> string option
     \<Rightarrow> reply io" where
  "sendMessageToGemini penv history newMessage activeProduct imageBase64 =
     try_catch
       (let apiKey = read_API_KEY penv in
        if falsy apiKey
        then return_io \<lparr>reply_text = Some MISSING_KEY_MESSAGE, reply_image = None\<rparr>
        else
          bind_io
            (await_call (ChatSendMessage history activeProduct
               (UserMessage newMessage (if truthy imageBase64 then imageBase64 else None))))
            (\<lambda>result.
               case functionCalls result of
                 [] \<Rightarrow> return_io \<lparr>reply_text = resp_text result, reply_image = None\<rparr>
               | call # _ \<Rightarrow>
                   if fc_name call = ''edit_image''
                   then
                     (case fc_args call of
                        None \<Rightarrow> throw_io (Error ''TypeError'')
                      | Some args \<Rightarrow>
                          bind_io
                            (generateImageWithNanoBanana apiKey (map_of args ''prompt'')
                               imageBase64)
                            (\<lambda>generatedImage.
                               if truthy generatedImage
                               then
                                 bind_io
                                   (await_call (ChatSendMessage history activeProduct
                                      (FunctionResponse ''edit_image''
                                         ''Image generated successfully.'')))
                                   (\<lambda>toolResponse. return_io
                                      \<lparr>reply_text = resp_text toolResponse,
                                       reply_image = generatedImage\<rparr>)
                               else
                                 bind_io
                                   (await_call (ChatSendMessage history activeProduct
                                      (FunctionResponse ''edit_image''
                                         ''Failed to generate image.'')))
                                   (\<lambda>toolResponse. return_io
                                      \<lparr>reply_text = resp_text toolResponse,
                                       reply_image = None\<rparr>)))
                   else return_io \<lparr>reply_text = resp_text result, reply_image = None\<rparr>))
       (\<lambda>error. return_io \<lparr>reply_text = Some APOLOGY_MESSAGE, reply_image = None\<rparr>)"

text \<open>
  The structured-output functions share one shape: read the key, return the fallback when
  it is missing, send one \<^verbatim>\<open>generateContent\<close> request, and \<^verbatim>\<open>JSON.parse\<close> a non-empty
  answer text. \<^verbatim>\<open>JSON.parse\<close> is the JavaScript built-in; it is a parameter that either
  throws or returns a value of the declared result type.
\<close>

definition translateBatch ::
  "process_env \<Rightarrow> (string \<Rightarrow> exn + string list) \<Rightarrow> string list \<Rightarrow> string \<Rightarrow> string list io" where
  "translateBatch penv json_parse texts targetLanguage =
     try_catch
       (let apiKey = read_API_KEY penv in
        if falsy apiKey then return_io texts
        else
          bind_io
            (await_call (GenerateContent ''gemini-2.5-flash''
               (TranslateBatchPrompt texts targetLanguage)))
            (\<lambda>response.
               case resp_text response of
                 None \<Rightarrow> return_io texts
               | Some t \<Rightarrow> if t \<noteq> [] then of_result (json_parse t) else return_io texts))
       (\<lambda>e. return_io texts)"

record location =
  loc_zip :: string
  loc_city :: string
  loc_country :: string
  loc_region :: string

definition lookupZipLocation ::
  "process_env \<Rightarrow> (string \<Rightarrow> exn + location list) \<Rightarrow> string \<Rightarrow> location list io" where
  "lookupZipLocation penv json_parse zipCode =
     try_catch
       (let apiKey = read_API_KEY penv in
        if falsy apiKey then return_io []
        else
          bind_io
            (await_call (GenerateContent ''gemini-2.5-flash'' (ZipPrompt zipCode)))
            (\<lambda>response.
               case resp_text response of
                 None \<Rightarrow> return_io []
               | Some t \<Rightarrow> if t \<noteq> [] then of_result (json_parse t) else return_io []))
       (\<lambda>error. return_io [])"

record estimate =
  est_cost :: real
  est_city :: string
  est_distance :: string
  est_currency :: "string option"
  est_exchangeRate :: "real option"

definition calculateShippingEstimate ::
  "process_env \<Rightarrow> (string \<Rightarrow> exn + estimate option) \<Rightarrow> string \<Rightarrow> string \<Rightarrow> string option
     \<Rightarrow> estimate option io" where
  "calculateShippingEstimate penv json_parse zipCode country' city' =
     try_catch
       (let apiKey = read_API_KEY penv in
        if falsy apiKey then return_io None
        else
          bind_io
            (await_call (GenerateContent ''gemini-2.5-flash''
               (ShippingPrompt zipCode country' city')))
            (\<lambda>response.
               case resp_text response of
                 None \<Rightarrow> return_io None
               | Some t \<Rightarrow> if t \<noteq> [] then of_result (json_parse t) else return_io None))
       (\<lambda>error. return_io None)"

record product_translation =
  translatedDescription :: string
  translatedFeatures :: "string list"

definition translateProductDetails ::
  "process_env \<Rightarrow> (string \<Rightarrow> exn + product_translation option) \<Rightarrow> string \<Rightarrow> string list
     \<Rightarrow> string \<Rightarrow> product_translation option io" where
  "translateProductDetails penv json_parse description features targetLanguage =
     try_catch
       (let apiKey = read_API_KEY penv in
        if falsy apiKey then return_io None
        else
          bind_io
            (await_call (GenerateContent ''gemini-2.5-flash''
               (ProductDetailsPrompt description features targetLanguage)))
            (\<lambda>response.
               case resp_text response of
                 None \<Rightarrow> return_io None
               | Some t \<Rightarrow> if t \<noteq> [] then of_result (json_parse t) else return_io None))
       (\<lambda>e. return_io None)"

definition translateContent :: "process_env \<Rightarrow> string \<Rightarrow> string \<Rightarrow> string io" where
  "translateContent penv txt targetLanguage =
     try_catch
       (let apiKey = read_API_KEY penv in
        if falsy apiKey then return_io txt
        else
          bind_io
            (await_call (GenerateContent ''gemini-2.5-flash'' (ContentPrompt txt targetLanguage)))
            (\<lambda>response.
               case resp_text response of
                 None \<Rightarrow> return_io txt
               | Some t \<Rightarrow> if t \<noteq> [] then return_io t else return_io txt))
       (\<lambda>e. return_io txt)"

section \<open>Checkout (components/Checkout.tsx)\<close>

text \<open>
  The component state is a record of its \<^verbatim>\<open>useState\<close> cells. \<open>debounceRef\<close> holds the
  armed debounce timer, represented by the input value its callback has captured; \<open>None\<close>
  means that no timer is armed (none was set, it was cleared, or it has fired). Amounts are
  JavaScript numbers, modelled as reals; the length of the postal-code input is the length
  of the model's string.
\<close>

record shipping_details =
  sd_city :: string
  sd_distance :: string
  sd_currency :: "string option"
  sd_exchangeRate :: "real option"

record checkout =
  zipCode :: string
  suggestions :: "location list"
  showSuggestions :: bool
  selectedCountry :: string
  shippingCost :: real
  shippingDetails :: "shipping_details option"
  isShippingCalculated :: bool
  isCalculating :: bool
  isLookingUp :: bool
  debounceRef :: "string option"

definition initial_checkout :: checkout where
  "initial_checkout =
     \<lparr>zipCode = [], suggestions = [], showSuggestions = False, selectedCountry = [],
      shippingCost = 0, shippingDetails = None, isShippingCalculated = False,
      isCalculating = False, isLookingUp = False, debounceRef = None\<rparr>"

definition activeCurrency :: "checkout \<Rightarrow> string" where
  "activeCurrency s =
     (case shippingDetails s of
        None \<Rightarrow> ''USD''
      | Some d \<Rightarrow> (case sd_currency d of
                    None \<Rightarrow> ''USD''
                  | Some c \<Rightarrow> if c \<noteq> [] then c else ''USD''))"

definition exchangeRate :: "checkout \<Rightarrow> real" where
  "exchangeRate s =
     (case shippingDetails s of
        None \<Rightarrow> 1
      | Some d \<Rightarrow> (case sd_exchangeRate d of
                    None \<Rightarrow> 1
                  | Some r \<Rightarrow> if r \<noteq> 0 then r else 1))"

text \<open>
  \<^verbatim>\<open>formatPrice\<close> hands the converted amount and the active currency to the built-in
  \<^verbatim>\<open>Intl.NumberFormat\<close>; the model returns the pair it hands over.
\<close>

definition formatPrice :: "checkout \<Rightarrow> real \<Rightarrow> string \<times> real" where
  "formatPrice s amountInUSD = (activeCurrency s, amountInUSD * exchangeRate s)"

definition handleZipChange :: "string \<Rightarrow> checkout \<Rightarrow> checkout" where
  "handleZipChange val s =
     (let s1 = s\<lparr>zipCode := val, isShippingCalculated := False, shippingDetails := None,
                 selectedCountry := [], debounceRef := None\<rparr>
      in if length val \<ge> 3
         then s1\<lparr>isLookingUp := True, debounceRef := Some val\<rparr>
         else s1\<lparr>suggestions := [], showSuggestions := False\<rparr>)"

text \<open>The debounce callback: it runs only when a timer is armed, 800 ms after the last input.\<close>

definition zip_timer_fires ::
  "process_env \<Rightarrow> (string \<Rightarrow> exn + location list) \<Rightarrow> checkout \<Rightarrow> checkout io" where
  "zip_timer_fires penv json_parse s =
     (case debounceRef s of
        None \<Rightarrow> return_io s
      | Some val \<Rightarrow>
          bind_io (lookupZipLocation penv json_parse val)
            (\<lambda>results. return_io
               (s\<lparr>debounceRef := None, suggestions := results, showSuggestions := True,
                  isLookingUp := False\<rparr>)))"

text \<open>
  \<^verbatim>\<open>handleCalculateShipping\<close> awaits \<^verbatim>\<open>calculateShippingEstimate(zip, country, city)\<close>
  inside \<^verbatim>\<open>try\<close>/\<^verbatim>\<open>catch\<close>/\<^verbatim>\<open>finally\<close>. While the request is pending the event loop runs
  other handlers (the postal-code input stays enabled, and nothing cancels a request), so the
  handler is two steps: \<open>handleCalculateShipping_start\<close> is what runs before the
  \<^verbatim>\<open>await\<close>, and \<open>handleCalculateShipping_settle\<close> is what runs once the awaited call has
  settled, on the state the component has by then. Every setter call is an absolute write.
  The value the call settles with is what \<open>calculateShippingEstimate\<close> returns, or a throw.
\<close>

definition handleCalculateShipping_start :: "checkout \<Rightarrow> checkout" where
  "handleCalculateShipping_start s = s\<lparr>isCalculating := True, shippingDetails := None\<rparr>"

definition handleCalculateShipping_settle ::
  "exn + estimate option \<Rightarrow> checkout \<Rightarrow> checkout" where
  "handleCalculateShipping_settle settled s =
     (case settled of
        Inr (Some r) \<Rightarrow>
          s\<lparr>shippingCost := est_cost r,
            shippingDetails := Some \<lparr>sd_city = est_city r, sd_distance = est_distance r,
              sd_currency = est_currency r, sd_exchangeRate = est_exchangeRate r\<rparr>,
            isShippingCalculated := True\<rparr>
      | Inr None \<Rightarrow> s\<lparr>shippingCost := 25, isShippingCalculated := True\<rparr>
      | Inl error \<Rightarrow> s\<lparr>shippingCost := 25, isShippingCalculated := True\<rparr>)
     \<lparr>isCalculating := False\<rparr>"

text \<open>
  \<^verbatim>\<open>selectLocation\<close>, the click on a suggestion: its own writes, then the start of
  \<^verbatim>\<open>handleCalculateShipping(loc.zip, loc.country, loc.city)\<close>, whose request is then pending.
\<close>

definition selectLocation :: "location \<Rightarrow> checkout \<Rightarrow> checkout" where
  "selectLocation loc s =
     handleCalculateShipping_start
       (s\<lparr>zipCode := loc_zip loc, selectedCountry := loc_country loc, suggestions := [],
          showSuggestions := False\<rparr>)"

text \<open>
  The checkout at run time: the input changes, the debounce timer fires (with the process
  configuration, \<^verbatim>\<open>JSON.parse\<close> and remote side of that moment), a suggestion is clicked, a
  pending estimate settles. \<open>estimate_succeeds\<close> marks the event of an estimate that settles
  with a result.
\<close>

datatype checkout_event =
    ZipChange string
  | ZipTimerFires process_env "string \<Rightarrow> exn + location list" remote
  | SelectLocation location
  | EstimateSettles "exn + estimate option"

fun apply_checkout_event :: "checkout_event \<Rightarrow> checkout \<Rightarrow> checkout" where
  "apply_checkout_event (ZipChange val) s = handleZipChange val s"
| "apply_checkout_event (ZipTimerFires penv json_parse rem) s =
     (case snd (zip_timer_fires penv json_parse s rem []) of
        Inr s' \<Rightarrow> s'
      | Inl e \<Rightarrow> s)"
| "apply_checkout_event (SelectLocation loc) s = selectLocation loc s"
| "apply_checkout_event (EstimateSettles settled) s = handleCalculateShipping_settle settled s"

definition run_checkout :: "checkout_event list \<Rightarrow> checkout \<Rightarrow> checkout" where
  "run_checkout es s = fold apply_checkout_event es s"

fun estimate_succeeds :: "checkout_event \<Rightarrow> bool" where
  "estimate_succeeds (EstimateSettles (Inr (Some r))) = True"
| "estimate_succeeds _ = False"

section \<open>Language provider (components/LanguageProvider.tsx)\<close>

text \<open>
  The provider state is the three \<^verbatim>\<open>useState\<close> cells and the \<^verbatim>\<open>missingTranslations\<close> ref.
  The cache is a JavaScript object used as a dictionary from key strings to strings. The ref
  holds a JavaScript \<^verbatim>\<open>Set\<close>, which keeps insertion order and no duplicates: it is a list,
  and \<open>set_add\<close> appends only what is not yet there. \<open>LANGUAGES\<close> lists the language codes the
  navigation bar offers (the only callers of \<^verbatim>\<open>setLanguage\<close> pass one of them).
\<close>

record provider =
  language :: string
  cache :: "string \<rightharpoonup> string"
  isTranslating :: bool
  missingTranslations :: "string list"

definition initial_provider :: provider where
  "initial_provider =
     \<lparr>language = ''English'', cache = Map.empty, isTranslating = False,
      missingTranslations = []\<rparr>"

definition LANGUAGES :: "string list" where
  "LANGUAGES = [''English'', ''Italian'', ''French'', ''German'', ''Spanish'', ''Japanese'']"

definition getCacheKey :: "string \<Rightarrow> string \<Rightarrow> string" where
  "getCacheKey txt lang = lang @ ''|'' @ txt"

definition set_add :: "'a \<Rightarrow> 'a list \<Rightarrow> 'a list" where
  "set_add x xs = (if x \<in> set xs then xs else xs @ [x])"

definition handleSetLanguage :: "string \<Rightarrow> provider \<Rightarrow> provider" where
  "handleSetLanguage lang s =
     (if lang = language s then s
      else if lang \<noteq> ''English''
           then s\<lparr>language := lang, isTranslating := True, missingTranslations := []\<rparr>
           else s\<lparr>language := lang, isTranslating := False\<rparr>)"

text \<open>
  \<^verbatim>\<open>toLowerCase\<close> on the letters A to Z; characters are bytes here, and no character outside
  ASCII lower-cases to a letter sequence that completes the slogan.
  \<^verbatim>\<open>includes\<close> is the substring test.
\<close>

definition lower_char :: "char \<Rightarrow> char" where
  "lower_char c =
     (case map_of (zip ''ABCDEFGHIJKLMNOPQRSTUVWXYZ'' ''abcdefghijklmnopqrstuvwxyz'') c of
        None \<Rightarrow> c
      | Some d \<Rightarrow> d)"

definition toLowerCase :: "string \<Rightarrow> string" where
  "toLowerCase txt = map lower_char txt"

fun str_includes :: "string \<Rightarrow> string \<Rightarrow> bool" where
  "str_includes [] sub = (sub = [])"
| "str_includes (c # cs) sub = (prefix sub (c # cs) \<or> str_includes cs sub)"

definition brand_protected :: "string \<Rightarrow> bool" where
  "brand_protected txt = (str_includes (toLowerCase txt) ''quiet living'' \<or> txt = ''Aura'')"

definition translate :: "string \<Rightarrow> provider \<Rightarrow> string \<times> provider" where
  "translate txt s =
     (if language s = ''English'' \<or> txt = [] then (txt, s)
      else if brand_protected txt then (txt, s)
      else (case cache s (getCacheKey txt (language s)) of
              None \<Rightarrow> (txt, s\<lparr>missingTranslations := set_add txt (missingTranslations s)\<rparr>)
            | Some v \<Rightarrow>
                if v \<noteq> [] then (v, s)
                else (txt, s\<lparr>missingTranslations := set_add txt (missingTranslations s)\<rparr>)))"

text \<open>
  \<^verbatim>\<open>processTranslations\<close>, the debounced effect callback. \<open>needed_texts\<close> is its filter of
  the pending set against the cache; \<open>merge_results\<close> is the \<^verbatim>\<open>setCache\<close> updater, which
  reads \<^verbatim>\<open>results[index]\<close> (\<^verbatim>\<open>undefined\<close> beyond the end of the array) and stores it when it
  is truthy; \<open>processTranslations_resume\<close> is what runs once the awaited \<^verbatim>\<open>translateBatch\<close>
  has settled: the rest of the \<^verbatim>\<open>try\<close> block, or the \<^verbatim>\<open>catch\<close>, then the \<^verbatim>\<open>finally\<close>.
\<close>

definition needed_texts :: "provider \<Rightarrow> string list" where
  "needed_texts s =
     filter (\<lambda>txt. falsy (cache s (getCacheKey txt (language s)))) (missingTranslations s)"

definition js_index :: "'a list \<Rightarrow> nat \<Rightarrow> 'a option" where
  "js_index xs i = (if i < length xs then Some (xs ! i) else None)"

definition merge_results ::
  "string \<Rightarrow> string list \<Rightarrow> string list \<Rightarrow> (string \<rightharpoonup> string) \<Rightarrow> (string \<rightharpoonup> string)" where
  "merge_results lang needed results prev =
     fold (\<lambda>(index, txt) newCache.
             if truthy (js_index results index)
             then newCache(getCacheKey txt lang := js_index results index)
             else newCache)
          (enumerate 0 needed) prev"

definition processTranslations_resume ::
  "string list \<Rightarrow> string \<Rightarrow> exn + string list \<Rightarrow> provider \<Rightarrow> provider" where
  "processTranslations_resume needed lang settled s =
     (case settled of
        Inr results \<Rightarrow> s\<lparr>cache := merge_results lang needed results (cache s)\<rparr>
      | Inl error \<Rightarrow> s)
     \<lparr>isTranslating := False\<rparr>"

definition processTranslations ::
  "process_env \<Rightarrow> (string \<Rightarrow> exn + string list) \<Rightarrow> provider \<Rightarrow> provider io" where
  "processTranslations penv json_parse s =
     (let needed = needed_texts s in
      if needed = [] then return_io (s\<lparr>isTranslating := False\<rparr>)
      else (\<lambda>rem tr.
              case translateBatch penv json_parse needed (language s) rem tr of
                (tr', settled) \<Rightarrow>
                  (tr', Inr (processTranslations_resume needed (language s) settled s))))"

text \<open>
  The provider at run time. The effect depends on the language, the flag and the cache: when
  one of them changes, the armed timer is cleared and a new one is armed if the flag is set.
  A request that has been sent stays in flight, with the texts and the language its closure
  captured, until it settles; nothing cancels it. Events are the calls the user interface
  makes and the callbacks the event loop runs.
\<close>

record runtime =
  prov :: provider
  timer :: bool
  inflight :: "(string list \<times> string) list"

datatype event =
    SetLanguage string
  | Translate string
  | TimerFires
  | BatchSettles nat "exn + string list"

definition initial_runtime :: runtime where
  "initial_runtime = \<lparr>prov = initial_provider, timer = False, inflight = []\<rparr>"

fun apply_event :: "event \<Rightarrow> runtime \<Rightarrow> runtime" where
  "apply_event (SetLanguage lang) r =
     (if lang = language (prov r) then r
      else r\<lparr>prov := handleSetLanguage lang (prov r),
             timer := isTranslating (handleSetLanguage lang (prov r))\<rparr>)"
| "apply_event (Translate txt) r = r\<lparr>prov := snd (translate txt (prov r))\<rparr>"
| "apply_event TimerFires r =
     (if timer r
      then (if needed_texts (prov r) = []
            then r\<lparr>prov := (prov r)\<lparr>isTranslating := False\<rparr>, timer := False\<rparr>
            else r\<lparr>timer := False,
                   inflight := inflight r @ [(needed_texts (prov r), language (prov r))]\<rparr>)
      else r)"
| "apply_event (BatchSettles i settled) r =
     (if i < length (inflight r)
      then r\<lparr>prov := processTranslations_resume (fst (inflight r ! i)) (snd (inflight r ! i))
                        settled (prov r),
             timer := False,
             inflight := take i (inflight r) @ drop (Suc i) (inflight r)\<rparr>
      else r)"

definition run :: "event list \<Rightarrow> runtime \<Rightarrow> runtime" where
  "run es r = fold apply_event es r"

text \<open>An event of the user interface: a language is chosen from \<open>LANGUAGES\<close>.\<close>

fun ui_event :: "event \<Rightarrow> bool" where
  "ui_event (SetLanguage lang) = (lang \<in> set LANGUAGES)"
| "ui_event _ = True"

section \<open>Observing remote calls\<close>

text \<open>
  \<open>calls_made\<close> is the part of the trace that one run of a function adds: the requests it
  sent, each with its outcome. A chat call is a \<^verbatim>\<open>chat.sendMessage\<close>; the other requests are
  \<^verbatim>\<open>generateContent\<close> calls.
\<close>

definition calls_made :: "'a io \<Rightarrow> remote \<Rightarrow> trace \<Rightarrow> trace" where
  "calls_made m rem tr = drop (length tr) (fst (m rem tr))"

definition is_chat_call :: "request \<Rightarrow> bool" where
  "is_chat_call req = (case req of ChatSendMessage h p m \<Rightarrow> True | GenerateContent m p \<Rightarrow> False)"

section \<open>Sample collaborators\<close>

text \<open>
  Concrete remote sides and \<^verbatim>\<open>JSON.parse\<close> behaviours, for running the functions on closed
  inputs: a remote that is unreachable, one that asks for an image edit while the image model
  is unreachable, one that answers with text that is not JSON, and one that answers a postal
  code with six locations; an estimate in euros, and a checkout session in which a first
  estimate is still pending when a second one is requested, the second settles with a result
  and the first then settles with null.
\<close>

definition offline_remote :: remote where
  "offline_remote tr req = Inl (Error ''Failed to fetch'')"

definition image_failure_remote :: remote where
  "image_failure_remote tr req =
     (case req of
        GenerateContent model' p \<Rightarrow> Inl (Error ''Failed to fetch'')
      | ChatSendMessage h ap msg \<Rightarrow>
          (case msg of
             UserMessage t i \<Rightarrow>
               Inr \<lparr>resp_text = None,
                    functionCalls = [\<lparr>fc_name = ''edit_image'',
                                      fc_args = Some [(''prompt'', ''add a cat'')]\<rparr>],
                    inlineData_parts = []\<rparr>
           | FunctionResponse n r \<Rightarrow>
               Inr \<lparr>resp_text = Some ''The image could not be created.'',
                    functionCalls = [], inlineData_parts = []\<rparr>))"

definition unparsable_remote :: remote where
  "unparsable_remote tr req =
     Inr \<lparr>resp_text = Some ''<html>'', functionCalls = [], inlineData_parts = []\<rparr>"

definition failing_parse :: "string \<Rightarrow> exn + 'a" where
  "failing_parse t = Inl (Error ''SyntaxError'')"

definition sample_location :: location where
  "sample_location =
     \<lparr>loc_zip = ''98121'', loc_city = ''Messina'', loc_country = ''Italy'', loc_region = ''Sicily''\<rparr>"

definition six_locations_remote :: remote where
  "six_locations_remote tr req =
     Inr \<lparr>resp_text = Some ''[six locations]'', functionCalls = [], inlineData_parts = []\<rparr>"

definition parse_six_locations :: "string \<Rightarrow> exn + location list" where
  "parse_six_locations t = Inr (replicate 6 sample_location)"

definition sample_estimate :: estimate where
  "sample_estimate =
     \<lparr>est_cost = 62, est_city = ''Messina, Italy'', est_distance = ''10500 km'',
      est_currency = Some ''EUR'', est_exchangeRate = Some (92 / 100)\<rparr>"

definition stale_failure_events :: "checkout_event list" where
  "stale_failure_events =
     [ZipChange ''981'',
      ZipTimerFires (Env (Some ''key'')) parse_six_locations six_locations_remote,
      SelectLocation sample_location,
      ZipChange ''98121'',
      ZipTimerFires (Env (Some ''key'')) parse_six_locations six_locations_remote,
      SelectLocation sample_location,
      EstimateSettles (Inr (Some sample_estimate)),
      EstimateSettles (Inr None)]"

section \<open>Invariant of the running provider\<close>

text \<open>
  A text is translatable when \<open>translate\<close> would register it: it is not empty and not
  brand-protected. Along every run of user-interface events the language is one of
  \<open>LANGUAGES\<close>, the flag is off in English, an armed timer implies the flag, pending texts and
  the texts of requests in flight are translatable, requests in flight are for a language
  other than English, and every cache entry has a non-empty value under the key of a
  translatable text and a language other than English.
\<close>

definition translatable :: "string \<Rightarrow> bool" where
  "translatable txt = (txt \<noteq> [] \<and> \<not> brand_protected txt)"

definition cache_entry_ok :: "string \<Rightarrow> string \<Rightarrow> bool" where
  "cache_entry_ok k v =
     (v \<noteq> [] \<and> (\<exists>lang txt. lang \<in> set LANGUAGES \<and> lang \<noteq> ''English'' \<and> translatable txt
                      \<and> k = getCacheKey txt lang))"

definition request_ok :: "string list \<times> string \<Rightarrow> bool" where
  "request_ok q = (snd q \<in> set LANGUAGES \<and> snd q \<noteq> ''English''
                   \<and> (\<forall>txt \<in> set (fst q). translatable txt))"

definition runtime_inv :: "runtime \<Rightarrow> bool" where
  "runtime_inv r =
     (language (prov r) \<in> set LANGUAGES
      \<and> (language (prov r) = ''English'' \<longrightarrow> \<not> isTranslating (prov r))
      \<and> (timer r \<longrightarrow> isTranslating (prov r))
      \<and> (\<forall>txt \<in> set (missingTranslations (prov r)). translatable txt)
      \<and> (\<forall>q \<in> set (inflight r). request_ok q)
      \<and> (\<forall>k v. cache (prov r) k = Some v \<longrightarrow> cache_entry_ok k v))"

section \<open>Properties of the service functions\<close>

lemmas io_defs =
  return_io_def throw_io_def of_result_def bind_io_def try_catch_def await_call_def

text \<open>
  Each exported function is one \<^verbatim>\<open>try\<close> whose handler returns a value, so it returns
  normally whatever the remote side and \<^verbatim>\<open>JSON.parse\<close> do.
\<close>

lemma try_catch_returns:
  assumes "\<And>e rem' tr'. \<exists>tr'' r. h e rem' tr' = (tr'', Inr r)"
  shows "\<exists>tr' r. try_catch m h rem tr = (tr', Inr r)"
proof (cases "m rem tr")
  case (Pair tr1 res)
  then show ?thesis
    using assms by (cases res) (simp_all add: try_catch_def)
qed

lemma sendMessageToGemini_returns:
  "\<exists>tr' r. sendMessageToGemini penv history newMessage activeProduct img rem tr = (tr', Inr r)"
  unfolding sendMessageToGemini_def by (rule try_catch_returns) (simp add: return_io_def)

lemma translateBatch_returns:
  "\<exists>tr' r. translateBatch penv jp texts lang rem tr = (tr', Inr r)"
  unfolding translateBatch_def by (rule try_catch_returns) (simp add: return_io_def)

lemma lookupZipLocation_returns:
  "\<exists>tr' r. lookupZipLocation penv jp zc rem tr = (tr', Inr r)"
  unfolding lookupZipLocation_def by (rule try_catch_returns) (simp add: return_io_def)

lemma calculateShippingEstimate_returns:
  "\<exists>tr' r. calculateShippingEstimate penv jp zc co ci rem tr = (tr', Inr r)"
  unfolding calculateShippingEstimate_def by (rule try_catch_returns) (simp add: return_io_def)

lemma translateProductDetails_returns:
  "\<exists>tr' r. translateProductDetails penv jp d fs lang rem tr = (tr', Inr r)"
  unfolding translateProductDetails_def by (rule try_catch_returns) (simp add: return_io_def)

lemma translateContent_returns:
  "\<exists>tr' r. translateContent penv t lang rem tr = (tr', Inr r)"
  unfolding translateContent_def by (rule try_catch_returns) (simp add: return_io_def)

lemma translateBatch_failure:
  assumes "(\<exists>req e. (req, Inl e) \<in> set (calls_made (translateBatch penv jp texts lang) rem tr))
         \<or> (\<exists>req resp t e. (req, Inr resp) \<in> set (calls_made (translateBatch penv jp texts lang) rem tr)
               \<and> resp_text resp = Some t \<and> t \<noteq> [] \<and> jp t = Inl e)"
  shows "snd (translateBatch penv jp texts lang rem tr) = Inr texts"
  using assms
  by (auto simp: translateBatch_def calls_made_def io_defs Let_def
      split: sum.splits option.splits if_splits)

lemma lookupZipLocation_failure:
  assumes "(\<exists>req e. (req, Inl e) \<in> set (calls_made (lookupZipLocation penv jp zc) rem tr))
         \<or> (\<exists>req resp t e. (req, Inr resp) \<in> set (calls_made (lookupZipLocation penv jp zc) rem tr)
               \<and> resp_text resp = Some t \<and> t \<noteq> [] \<and> jp t = Inl e)"
  shows "snd (lookupZipLocation penv jp zc rem tr) = Inr []"
  using assms
  by (auto simp: lookupZipLocation_def calls_made_def io_defs Let_def
      split: sum.splits option.splits if_splits)

text \<open>
  The paths through \<open>sendMessageToGemini\<close>, each with the trace it leaves.
\<close>

lemma generateImageWithNanoBanana_run:
  "generateImageWithNanoBanana apiKey prompt' img rem tr =
     (tr @ [(GenerateContent ''gemini-2.5-flash-image''
               (ImagePrompt (if truthy img then img else None) prompt'),
             rem tr (GenerateContent ''gemini-2.5-flash-image''
               (ImagePrompt (if truthy img then img else None) prompt')))],
      Inr (case rem tr (GenerateContent ''gemini-2.5-flash-image''
               (ImagePrompt (if truthy img then img else None) prompt')) of
             Inl e \<Rightarrow> None
           | Inr response \<Rightarrow>
               (case filter truthy (inlineData_parts response) of [] \<Rightarrow> None | d # _ \<Rightarrow> d)))"
  by (simp add: generateImageWithNanoBanana_def io_defs split: sum.splits)

lemma sendMessageToGemini_no_key:
  assumes "falsy (read_API_KEY penv)"
  shows "sendMessageToGemini penv history newMessage activeProduct img rem tr =
     (tr, Inr \<lparr>reply_text = Some MISSING_KEY_MESSAGE, reply_image = None\<rparr>)"
  using assms by (simp add: sendMessageToGemini_def io_defs)

lemma sendMessageToGemini_first_call_fails:
  assumes "\<not> falsy (read_API_KEY penv)"
    and "rem tr (ChatSendMessage history activeProduct
               (UserMessage newMessage (if truthy img then img else None))) = Inl e"
  shows "sendMessageToGemini penv history newMessage activeProduct img rem tr =
     (tr @ [(ChatSendMessage history activeProduct
               (UserMessage newMessage (if truthy img then img else None)), Inl e)],
      Inr \<lparr>reply_text = Some APOLOGY_MESSAGE, reply_image = None\<rparr>)"
  using assms by (simp add: sendMessageToGemini_def io_defs)

lemma sendMessageToGemini_plain_answer:
  assumes "\<not> falsy (read_API_KEY penv)"
    and "rem tr (ChatSendMessage history activeProduct
               (UserMessage newMessage (if truthy img then img else None))) = Inr result"
    and "functionCalls result = [] \<or> fc_name (hd (functionCalls result)) \<noteq> ''edit_image''"
  shows "sendMessageToGemini penv history newMessage activeProduct img rem tr =
     (tr @ [(ChatSendMessage history activeProduct
               (UserMessage newMessage (if truthy img then img else None)), Inr result)],
      Inr \<lparr>reply_text = resp_text result, reply_image = None\<rparr>)"
  using assms by (cases "functionCalls result") (simp_all add: sendMessageToGemini_def io_defs)

lemma sendMessageToGemini_no_args:
  assumes "\<not> falsy (read_API_KEY penv)"
    and "rem tr (ChatSendMessage history activeProduct
               (UserMessage newMessage (if truthy img then img else None))) = Inr result"
    and "functionCalls result = call # rest" and "fc_name call = ''edit_image''"
    and "fc_args call = None"
  shows "sendMessageToGemini penv history newMessage activeProduct img rem tr =
     (tr @ [(ChatSendMessage history activeProduct
               (UserMessage newMessage (if truthy img then img else None)), Inr result)],
      Inr \<lparr>reply_text = Some APOLOGY_MESSAGE, reply_image = None\<rparr>)"
  using assms by (simp add: sendMessageToGemini_def io_defs)

lemma sendMessageToGemini_edit_image:
  assumes "\<not> falsy (read_API_KEY penv)"
    and "rem tr (ChatSendMessage history activeProduct
               (UserMessage newMessage (if truthy img then img else None))) = Inr result"
    and "functionCalls result = call # rest" and "fc_name call = ''edit_image''"
    and "fc_args call = Some args"
    and "generateImageWithNanoBanana (read_API_KEY penv) (map_of args ''prompt'') img rem
           (tr @ [(ChatSendMessage history activeProduct
               (UserMessage newMessage (if truthy img then img else None)), Inr result)])
         = (tr2, Inr generated)"
    and "rem tr2 (ChatSendMessage history activeProduct
            (FunctionResponse ''edit_image''
               (if truthy generated then ''Image generated successfully.''
                else ''Failed to generate image.''))) = out3"
  shows "sendMessageToGemini penv history newMessage activeProduct img rem tr =
     (tr2 @ [(ChatSendMessage history activeProduct
            (FunctionResponse ''edit_image''
               (if truthy generated then ''Image generated successfully.''
                else ''Failed to generate image.'')), out3)],
      case out3 of
        Inl e \<Rightarrow> Inr \<lparr>reply_text = Some APOLOGY_MESSAGE, reply_image = None\<rparr>
      | Inr toolResponse \<Rightarrow>
          Inr \<lparr>reply_text = resp_text toolResponse,
               reply_image = (if truthy generated then generated else None)\<rparr>)"
proof (cases "truthy generated")
  case True
  with assms show ?thesis
    by (cases out3) (simp_all add: sendMessageToGemini_def io_defs)
next
  case False
  with assms show ?thesis
    by (cases out3) (simp_all add: sendMessageToGemini_def io_defs)
qed

lemma sendMessageToGemini_failures:
  fixes penv history newMessage activeProduct img rem tr
  defines "calls \<equiv> calls_made (sendMessageToGemini penv history newMessage activeProduct img) rem tr"
    and "res \<equiv> snd (sendMessageToGemini penv history newMessage activeProduct img rem tr)"
  shows "((\<exists>req e. (req, Inl e) \<in> set calls \<and> is_chat_call req)
            \<longrightarrow> res = Inr \<lparr>reply_text = Some APOLOGY_MESSAGE, reply_image = None\<rparr>)
       \<and> ((\<exists>req e. (req, Inl e) \<in> set calls \<and> \<not> is_chat_call req)
            \<and> \<not> (\<exists>req e. (req, Inl e) \<in> set calls \<and> is_chat_call req)
            \<longrightarrow> (\<exists>resp. last calls = (ChatSendMessage history activeProduct
                         (FunctionResponse ''edit_image'' ''Failed to generate image.''), Inr resp)
                  \<and> res = Inr \<lparr>reply_text = resp_text resp, reply_image = None\<rparr>))"
proof (cases "falsy (read_API_KEY penv)")
  case True
  then show ?thesis
    by (simp add: calls_def calls_made_def sendMessageToGemini_no_key)
next
  case key: False
  let ?req1 = "ChatSendMessage history activeProduct
               (UserMessage newMessage (if truthy img then img else None))"
  show ?thesis
  proof (cases "rem tr ?req1")
    case (Inl e)
    from sendMessageToGemini_first_call_fails [where rem = rem and tr = tr, OF key Inl]
    show ?thesis
      by (simp add: calls_def res_def calls_made_def is_chat_call_def)
  next
    case r1: (Inr result)
    show ?thesis
    proof (cases "functionCalls result = [] \<or> fc_name (hd (functionCalls result)) \<noteq> ''edit_image''")
      case True
      from sendMessageToGemini_plain_answer [where rem = rem and tr = tr, OF key r1 True]
      show ?thesis
        by (simp add: calls_def res_def calls_made_def)
    next
      case False
      then obtain call rest where fc: "functionCalls result = call # rest"
        and ed: "fc_name call = ''edit_image''"
        by (cases "functionCalls result") auto
      show ?thesis
      proof (cases "fc_args call")
        case None
        from sendMessageToGemini_no_args [where rem = rem and tr = tr, OF key r1 fc ed None]
        show ?thesis
          by (simp add: calls_def res_def calls_made_def)
      next
        case (Some args)
        let ?tr1 = "tr @ [(?req1, Inr result)]"
        let ?req2 = "GenerateContent ''gemini-2.5-flash-image''
               (ImagePrompt (if truthy img then img else None) (map_of args ''prompt''))"
        obtain generated where gen: "generateImageWithNanoBanana (read_API_KEY penv)
             (map_of args ''prompt'') img rem ?tr1 = (?tr1 @ [(?req2, rem ?tr1 ?req2)], Inr generated)"
          and gen_fail: "\<And>e. rem ?tr1 ?req2 = Inl e \<Longrightarrow> generated = None"
          by (simp add: generateImageWithNanoBanana_run)
        let ?tr2 = "?tr1 @ [(?req2, rem ?tr1 ?req2)]"
        let ?req3 = "ChatSendMessage history activeProduct
            (FunctionResponse ''edit_image''
               (if truthy generated then ''Image generated successfully.''
                else ''Failed to generate image.''))"
        note run = sendMessageToGemini_edit_image [where rem = rem and tr = tr, OF key r1 fc ed Some gen refl]
        have calls: "calls = [(?req1, Inr result), (?req2, rem ?tr1 ?req2), (?req3, rem ?tr2 ?req3)]"
          by (simp add: calls_def calls_made_def run)
        have res: "res = (case rem ?tr2 ?req3 of
            Inl e \<Rightarrow> Inr \<lparr>reply_text = Some APOLOGY_MESSAGE, reply_image = None\<rparr>
          | Inr toolResponse \<Rightarrow>
             Inr \<lparr>reply_text = resp_text toolResponse,
               reply_image = (if truthy generated then generated else None)\<rparr>)"
          by (simp add: res_def run)
        show ?thesis
        proof (cases "rem ?tr2 ?req3")
          case (Inl e)
          then show ?thesis
            by (auto simp: calls res is_chat_call_def)
        next
          case r3: (Inr toolResponse)
          show ?thesis
          proof (cases "rem ?tr1 ?req2")
            case (Inl e2)
            then have "generated = None" by (rule gen_fail)
            with r3 Inl show ?thesis
              by (simp add: calls res is_chat_call_def truthy_def)
          next
            case (Inr response2)
            with r3 show ?thesis
              by (simp add: calls is_chat_call_def)
          qed
        qed
      qed
    qed
  qed
qed

text \<open>
  Claim C8, as stated, fails for \<open>sendMessageToGemini\<close>: when the model asks for an image edit
  and the request to the image model fails, \<open>generateImageWithNanoBanana\<close> catches the failure,
  the chat is told "Failed to generate image.", and the model's answer to that is returned,
  not the static apology.
\<close>

theorem sendMessageToGemini_image_failure_counterexample:
  "sendMessageToGemini (Env (Some ''key'')) [] ''Add a cat'' None None image_failure_remote []
     = ([(ChatSendMessage [] None (UserMessage ''Add a cat'' None),
          Inr \<lparr>resp_text = None,
               functionCalls = [\<lparr>fc_name = ''edit_image'',
                                 fc_args = Some [(''prompt'', ''add a cat'')]\<rparr>],
               inlineData_parts = []\<rparr>),
         (GenerateContent ''gemini-2.5-flash-image'' (ImagePrompt None (Some ''add a cat'')),
          Inl (Error ''Failed to fetch'')),
         (ChatSendMessage [] None
            (FunctionResponse ''edit_image'' ''Failed to generate image.''),
          Inr \<lparr>resp_text = Some ''The image could not be created.'',
               functionCalls = [], inlineData_parts = []\<rparr>)],
        Inr \<lparr>reply_text = Some ''The image could not be created.'', reply_image = None\<rparr>)
   \<and> ''The image could not be created.'' \<noteq> APOLOGY_MESSAGE"
  by (simp add: sendMessageToGemini_def generateImageWithNanoBanana_def io_defs
      image_failure_remote_def read_API_KEY_def falsy_def truthy_def APOLOGY_MESSAGE_def)

text \<open>
  Claim C8, amended. No exported remote-call function propagates an exception: each returns
  normally for every input, every remote behaviour and every \<^verbatim>\<open>JSON.parse\<close> behaviour. When one
  of its chat calls fails, \<open>sendMessageToGemini\<close> returns the static apology; when only the
  nested image request fails, it reports "Failed to generate image." to the chat and returns
  the model's answer to that, without an image. When its request or the parse of a non-empty
  answer fails, \<open>translateBatch\<close> returns its input texts and \<open>lookupZipLocation\<close> the
  empty list.
\<close>

theorem remote_failures_become_fallbacks:
  "(\<exists>tr' r. sendMessageToGemini penv history newMessage activeProduct img rem tr = (tr', Inr r))
   \<and> (\<exists>tr' r. translateBatch penv jpa texts lang rem tr = (tr', Inr r))
   \<and> (\<exists>tr' r. lookupZipLocation penv jpb zc rem tr = (tr', Inr r))
   \<and> (\<exists>tr' r. calculateShippingEstimate penv jpc zc' co ci rem tr = (tr', Inr r))
   \<and> (\<exists>tr' r. translateProductDetails penv jpd d fs lang rem tr = (tr', Inr r))
   \<and> (\<exists>tr' r. translateContent penv t lang rem tr = (tr', Inr r))
   \<and> ((\<exists>req e. (req, Inl e) \<in> set (calls_made
            (sendMessageToGemini penv history newMessage activeProduct img) rem tr)
          \<and> is_chat_call req)
        \<longrightarrow> snd (sendMessageToGemini penv history newMessage activeProduct img rem tr)
              = Inr \<lparr>reply_text = Some APOLOGY_MESSAGE, reply_image = None\<rparr>)
   \<and> ((\<exists>req e. (req, Inl e) \<in> set (calls_made
            (sendMessageToGemini penv history newMessage activeProduct img) rem tr)
          \<and> \<not> is_chat_call req)
        \<and> \<not> (\<exists>req e. (req, Inl e) \<in> set (calls_made
            (sendMessageToGemini penv history newMessage activeProduct img) rem tr)
          \<and> is_chat_call req)
        \<longrightarrow> (\<exists>resp. last (calls_made
                  (sendMessageToGemini penv history newMessage activeProduct img) rem tr)
                = (ChatSendMessage history activeProduct
                     (FunctionResponse ''edit_image'' ''Failed to generate image.''), Inr resp)
              \<and> snd (sendMessageToGemini penv history newMessage activeProduct img rem tr)
                = Inr \<lparr>reply_text = resp_text resp, reply_image = None\<rparr>))
   \<and> ((\<exists>req e. (req, Inl e) \<in> set (calls_made (translateBatch penv jpa texts lang) rem tr))
        \<or> (\<exists>req resp t e. (req, Inr resp) \<in> set (calls_made (translateBatch penv jpa texts lang) rem tr)
               \<and> resp_text resp = Some t \<and> t \<noteq> [] \<and> jpa t = Inl e)
        \<longrightarrow> snd (translateBatch penv jpa texts lang rem tr) = Inr texts)
   \<and> ((\<exists>req e. (req, Inl e) \<in> set (calls_made (lookupZipLocation penv jpb zc) rem tr))
        \<or> (\<exists>req resp t e. (req, Inr resp) \<in> set (calls_made (lookupZipLocation penv jpb zc) rem tr)
               \<and> resp_text resp = Some t \<and> t \<noteq> [] \<and> jpb t = Inl e)
        \<longrightarrow> snd (lookupZipLocation penv jpb zc rem tr) = Inr [])"
proof (intro conjI)
  show "(\<exists>req e. (req, Inl e) \<in> set (calls_made (translateBatch penv jpa texts lang) rem tr))
        \<or> (\<exists>req resp t e. (req, Inr resp) \<in> set (calls_made (translateBatch penv jpa texts lang) rem tr)
               \<and> resp_text resp = Some t \<and> t \<noteq> [] \<and> jpa t = Inl e)
        \<longrightarrow> snd (translateBatch penv jpa texts lang rem tr) = Inr texts"
    by (rule impI) (rule translateBatch_failure)
  show "(\<exists>req e. (req, Inl e) \<in> set (calls_made (lookupZipLocation penv jpb zc) rem tr))
        \<or> (\<exists>req resp t e. (req, Inr resp) \<in> set (calls_made (lookupZipLocation penv jpb zc) rem tr)
               \<and> resp_text resp = Some t \<and> t \<noteq> [] \<and> jpb t = Inl e)
        \<longrightarrow> snd (lookupZipLocation penv jpb zc rem tr) = Inr []"
    by (rule impI) (rule lookupZipLocation_failure)
qed (use sendMessageToGemini_failures [of penv history newMessage activeProduct img rem tr] in
      \<open>simp_all add: sendMessageToGemini_returns translateBatch_returns
        lookupZipLocation_returns calculateShippingEstimate_returns
        translateProductDetails_returns translateContent_returns\<close>)

theorem remote_failures_become_fallbacks_witness:
  "(ChatSendMessage [] None (UserMessage ''Hello'' None), Inl (Error ''Failed to fetch''))
     \<in> set (calls_made (sendMessageToGemini (Env (Some ''key'')) [] ''Hello'' None None)
               offline_remote [])
   \<and> is_chat_call (ChatSendMessage [] None (UserMessage ''Hello'' None))
   \<and> snd (sendMessageToGemini (Env (Some ''key'')) [] ''Hello'' None None offline_remote [])
       = Inr \<lparr>reply_text = Some APOLOGY_MESSAGE, reply_image = None\<rparr>
   \<and> (GenerateContent ''gemini-2.5-flash'' (TranslateBatchPrompt [''Shop''] ''French''),
        Inl (Error ''Failed to fetch''))
     \<in> set (calls_made (translateBatch (Env (Some ''key'')) failing_parse [''Shop''] ''French'')
               offline_remote [])
   \<and> snd (translateBatch (Env (Some ''key'')) failing_parse [''Shop''] ''French''
            offline_remote []) = Inr [''Shop'']
   \<and> (GenerateContent ''gemini-2.5-flash'' (ZipPrompt ''98121''), Inl (Error ''Failed to fetch''))
     \<in> set (calls_made (lookupZipLocation (Env (Some ''key'')) failing_parse ''98121'')
               offline_remote [])
   \<and> snd (lookupZipLocation (Env (Some ''key'')) failing_parse ''98121'' offline_remote [])
       = Inr []
   \<and> snd (translateBatch (Env (Some ''key'')) failing_parse [''Shop''] ''French''
            unparsable_remote []) = Inr [''Shop'']
   \<and> snd (lookupZipLocation (Env (Some ''key'')) failing_parse ''98121'' unparsable_remote [])
       = Inr []
   \<and> snd (sendMessageToGemini (Env (Some ''key'')) [] ''Add a cat'' None None
            image_failure_remote [])
       = Inr \<lparr>reply_text = Some ''The image could not be created.'', reply_image = None\<rparr>"
proof -
  let ?penv = "Env (Some ''key'')"
  let ?jpc = "failing_parse :: string \<Rightarrow> exn + estimate option"
  let ?jpd = "failing_parse :: string \<Rightarrow> exn + product_translation option"
  note off = remote_failures_become_fallbacks [where penv = ?penv and history = "[]"
      and newMessage = "''Hello''" and activeProduct = None and img = None
      and rem = offline_remote and tr = "[]" and jpa = failing_parse and texts = "[''Shop'']"
      and lang = "''French''" and jpb = failing_parse and zc = "''98121''" and jpc = ?jpc
      and jpd = ?jpd]
  note bad = remote_failures_become_fallbacks [where penv = ?penv and history = "[]"
      and newMessage = "''Hello''" and activeProduct = None and img = None
      and rem = unparsable_remote and tr = "[]" and jpa = failing_parse and texts = "[''Shop'']"
      and lang = "''French''" and jpb = failing_parse and zc = "''98121''" and jpc = ?jpc
      and jpd = ?jpd]
  note image = remote_failures_become_fallbacks [where penv = ?penv and history = "[]"
      and newMessage = "''Add a cat''" and activeProduct = None and img = None
      and rem = image_failure_remote and tr = "[]" and jpa = failing_parse
      and texts = "[''Shop'']" and lang = "''French''" and jpb = failing_parse
      and zc = "''98121''" and jpc = ?jpc and jpd = ?jpd]
  have c1: "calls_made (sendMessageToGemini ?penv [] ''Hello'' None None) offline_remote []
      = [(ChatSendMessage [] None (UserMessage ''Hello'' None), Inl (Error ''Failed to fetch''))]"
    by (simp add: calls_made_def sendMessageToGemini_def io_defs offline_remote_def
        read_API_KEY_def falsy_def truthy_def)
  have c2: "calls_made (translateBatch ?penv failing_parse [''Shop''] ''French'') offline_remote []
      = [(GenerateContent ''gemini-2.5-flash'' (TranslateBatchPrompt [''Shop''] ''French''),
          Inl (Error ''Failed to fetch''))]"
    by (simp add: calls_made_def translateBatch_def io_defs offline_remote_def
        read_API_KEY_def falsy_def)
  have c3: "calls_made (lookupZipLocation ?penv failing_parse ''98121'') offline_remote []
      = [(GenerateContent ''gemini-2.5-flash'' (ZipPrompt ''98121''),
          Inl (Error ''Failed to fetch''))]"
    by (simp add: calls_made_def lookupZipLocation_def io_defs offline_remote_def
        read_API_KEY_def falsy_def)
  have c4: "calls_made (translateBatch ?penv failing_parse [''Shop''] ''French'')
        unparsable_remote []
      = [(GenerateContent ''gemini-2.5-flash'' (TranslateBatchPrompt [''Shop''] ''French''),
          Inr \<lparr>resp_text = Some ''<html>'', functionCalls = [], inlineData_parts = []\<rparr>)]"
    by (simp add: calls_made_def translateBatch_def io_defs unparsable_remote_def
        read_API_KEY_def falsy_def failing_parse_def)
  have c5: "calls_made (lookupZipLocation ?penv failing_parse ''98121'') unparsable_remote []
      = [(GenerateContent ''gemini-2.5-flash'' (ZipPrompt ''98121''),
          Inr \<lparr>resp_text = Some ''<html>'', functionCalls = [], inlineData_parts = []\<rparr>)]"
    by (simp add: calls_made_def lookupZipLocation_def io_defs unparsable_remote_def
        read_API_KEY_def falsy_def failing_parse_def)
  have c6: "calls_made (sendMessageToGemini ?penv [] ''Add a cat'' None None)
        image_failure_remote []
      = [(ChatSendMessage [] None (UserMessage ''Add a cat'' None),
          Inr \<lparr>resp_text = None,
               functionCalls = [\<lparr>fc_name = ''edit_image'',
                                 fc_args = Some [(''prompt'', ''add a cat'')]\<rparr>],
               inlineData_parts = []\<rparr>),
         (GenerateContent ''gemini-2.5-flash-image'' (ImagePrompt None (Some ''add a cat'')),
          Inl (Error ''Failed to fetch'')),
         (ChatSendMessage [] None
            (FunctionResponse ''edit_image'' ''Failed to generate image.''),
          Inr \<lparr>resp_text = Some ''The image could not be created.'',
               functionCalls = [], inlineData_parts = []\<rparr>)]"
    by (simp add: calls_made_def sendMessageToGemini_def generateImageWithNanoBanana_def
        io_defs image_failure_remote_def read_API_KEY_def falsy_def truthy_def)
  have chat: "is_chat_call (ChatSendMessage [] None (UserMessage ''Hello'' None))"
    by (simp add: is_chat_call_def)
  from off c1 chat have r1: "snd (sendMessageToGemini ?penv [] ''Hello'' None None offline_remote [])
       = Inr \<lparr>reply_text = Some APOLOGY_MESSAGE, reply_image = None\<rparr>"
    by simp
  from off c2 have r2: "snd (translateBatch ?penv failing_parse [''Shop''] ''French''
            offline_remote []) = Inr [''Shop'']"
    by simp
  from off c3 have r3: "snd (lookupZipLocation ?penv failing_parse ''98121'' offline_remote [])
       = Inr []"
    by simp
  from bad c4 have r4: "snd (translateBatch ?penv failing_parse [''Shop''] ''French''
            unparsable_remote []) = Inr [''Shop'']"
    by (simp add: failing_parse_def)
  from bad c5 have r5: "snd (lookupZipLocation ?penv failing_parse ''98121'' unparsable_remote [])
       = Inr []"
    by (simp add: failing_parse_def)
  from image c6 have r6: "snd (sendMessageToGemini ?penv [] ''Add a cat'' None None
            image_failure_remote [])
       = Inr \<lparr>reply_text = Some ''The image could not be created.'', reply_image = None\<rparr>"
    by (simp add: is_chat_call_def)
  from c1 c2 c3 chat r1 r2 r3 r4 r5 r6 show ?thesis by simp
qed

text \<open>
  Claim C9. When the API key is absent from the process configuration (reading it throws, it
  is undefined, or it is the empty string), every service function returns its fallback and
  leaves the trace of remote requests as it was: \<open>sendMessageToGemini\<close> returns the message
  that names the missing key, \<open>translateBatch\<close> its input texts, \<open>lookupZipLocation\<close> the
  empty list and \<open>calculateShippingEstimate\<close> null; the two remaining exports,
  \<open>translateProductDetails\<close> and \<open>translateContent\<close>, return null and the input text.
\<close>

theorem missing_api_key_fallbacks:
  assumes "falsy (read_API_KEY penv)"
  shows "sendMessageToGemini penv history newMessage activeProduct img rem tr
           = (tr, Inr \<lparr>reply_text = Some MISSING_KEY_MESSAGE, reply_image = None\<rparr>)
       \<and> str_includes MISSING_KEY_MESSAGE ''Missing API Key''
       \<and> translateBatch penv jpa texts targetLanguage rem tr = (tr, Inr texts)
       \<and> lookupZipLocation penv jpb zc rem tr = (tr, Inr [])
       \<and> calculateShippingEstimate penv jpc zc' country' city' rem tr = (tr, Inr None)
       \<and> translateProductDetails penv jpd description features targetLanguage rem tr
           = (tr, Inr None)
       \<and> translateContent penv content targetLanguage rem tr = (tr, Inr content)"
  using assms
  by (simp add: sendMessageToGemini_def translateBatch_def lookupZipLocation_def
      calculateShippingEstimate_def translateProductDetails_def translateContent_def
      io_defs MISSING_KEY_MESSAGE_def)

theorem missing_api_key_fallbacks_witness:
  "falsy (read_API_KEY EnvThrows)
   \<and> sendMessageToGemini EnvThrows [] ''Hello'' None None (\<lambda>tr req. Inl (Error ''offline'')) []
       = ([], Inr \<lparr>reply_text = Some MISSING_KEY_MESSAGE, reply_image = None\<rparr>)
   \<and> translateBatch EnvThrows (\<lambda>t. Inr []) [''Shop''] ''French''
         (\<lambda>tr req. Inl (Error ''offline'')) []
       = ([], Inr [''Shop''])
   \<and> lookupZipLocation EnvThrows (\<lambda>t. Inr []) ''98121'' (\<lambda>tr req. Inl (Error ''offline'')) []
       = ([], Inr [])
   \<and> calculateShippingEstimate EnvThrows (\<lambda>t. Inr None) ''98121'' ''USA'' (Some ''Seattle'')
         (\<lambda>tr req. Inl (Error ''offline'')) []
       = ([], Inr None)"
proof -
  have h: "falsy (read_API_KEY EnvThrows)" by (simp add: falsy_def read_API_KEY_def)
  show ?thesis
    using h missing_api_key_fallbacks [where penv = EnvThrows and history = "[]"
        and newMessage = "''Hello''" and activeProduct = None and img = None
        and rem = "\<lambda>tr req. Inl (Error ''offline'')" and tr = "[]"
        and jpa = "\<lambda>t. Inr []" and texts = "[''Shop'']" and targetLanguage = "''French''"
        and jpb = "\<lambda>t. Inr []" and zc = "''98121''"
        and jpc = "\<lambda>t. Inr None" and zc' = "''98121''" and country' = "''USA''"
        and city' = "Some ''Seattle''" and jpd = "\<lambda>t. Inr None" and description = "[]"
        and features = "[]" and content = "[]"]
    by simp
qed

section \<open>Properties of the checkout\<close>

lemma zip_timer_fires_shippingDetails:
  "shippingDetails (apply_checkout_event (ZipTimerFires penv jp rem) s) = shippingDetails s"
proof (cases "debounceRef s")
  case None
  then show ?thesis by (simp add: zip_timer_fires_def return_io_def)
next
  case (Some val)
  obtain tr' results where "lookupZipLocation penv jp val rem [] = (tr', Inr results)"
    using lookupZipLocation_returns by blast
  with Some show ?thesis by (simp add: zip_timer_fires_def bind_io_def return_io_def)
qed

lemma no_success_keeps_details_null:
  assumes "shippingDetails s = None" and "list_all (\<lambda>e. \<not> estimate_succeeds e) es"
  shows "shippingDetails (run_checkout es s) = None"
  using assms
proof (induction es arbitrary: s)
  case Nil
  then show ?case by (simp add: run_checkout_def)
next
  case (Cons e es)
  from Cons.prems have "shippingDetails (apply_checkout_event e s) = None"
  proof (cases e)
    case (EstimateSettles settled)
    show ?thesis
    proof (cases settled)
      case (Inl err)
      with EstimateSettles Cons.prems show ?thesis
        by (simp add: handleCalculateShipping_settle_def)
    next
      case (Inr res)
      with EstimateSettles Cons.prems show ?thesis
        by (cases res) (simp_all add: handleCalculateShipping_settle_def)
    qed
  next
    case (ZipTimerFires penv jp rem)
    with Cons.prems show ?thesis
      by (simp only: zip_timer_fires_shippingDetails)
  qed (simp_all add: handleZipChange_def Let_def selectLocation_def
        handleCalculateShipping_start_def)
  with Cons show ?case by (simp add: run_checkout_def)
qed

text \<open>
  Claim C7, as stated, fails on \<open>shippingDetails\<close>: the failure branches write the cost and
  the completion flag only. When a second estimate was requested while the first was pending
  and has settled with a result, the first one's failure sets the cost to 25 and leaves the
  second one's details in place, so prices are shown in its currency at its rate.
\<close>

theorem stale_shipping_failure_counterexample:
  "shippingCost (run_checkout stale_failure_events initial_checkout) = 25
   \<and> isShippingCalculated (run_checkout stale_failure_events initial_checkout)
   \<and> shippingDetails (run_checkout stale_failure_events initial_checkout)
       = Some \<lparr>sd_city = ''Messina, Italy'', sd_distance = ''10500 km'',
               sd_currency = Some ''EUR'', sd_exchangeRate = Some (92 / 100)\<rparr>
   \<and> activeCurrency (run_checkout stale_failure_events initial_checkout) = ''EUR''
   \<and> exchangeRate (run_checkout stale_failure_events initial_checkout) = 92 / 100"
  by (simp add: run_checkout_def stale_failure_events_def initial_checkout_def
      handleZipChange_def Let_def zip_timer_fires_def lookupZipLocation_def io_defs
      six_locations_remote_def parse_six_locations_def read_API_KEY_def falsy_def
      selectLocation_def handleCalculateShipping_start_def handleCalculateShipping_settle_def
      sample_location_def sample_estimate_def activeCurrency_def exchangeRate_def)

text \<open>
  Claim C7, amended. When a shipping-estimate request fails, that is the awaited
  \<open>calculateShippingEstimate\<close> returns null or throws, the handler sets the shipping cost to
  25, marks the estimation as complete, ends the calculation and writes nothing else; in
  particular it does not write \<open>shippingDetails\<close>. The request set them to null when it
  started, so when no estimate has settled with a result since then they are still null, and
  prices are shown in USD at exchange rate 1.
\<close>

theorem shipping_failure_fallback:
  assumes "settled = Inr None \<or> (\<exists>e. settled = Inl e)"
  shows "handleCalculateShipping_settle settled s
           = s\<lparr>shippingCost := 25, isShippingCalculated := True, isCalculating := False\<rparr>
       \<and> shippingDetails (handleCalculateShipping_start s0) = None
       \<and> (list_all (\<lambda>e. \<not> estimate_succeeds e) es \<longrightarrow>
            shippingCost (handleCalculateShipping_settle settled
                (run_checkout es (handleCalculateShipping_start s0))) = 25
            \<and> isShippingCalculated (handleCalculateShipping_settle settled
                (run_checkout es (handleCalculateShipping_start s0)))
            \<and> shippingDetails (handleCalculateShipping_settle settled
                (run_checkout es (handleCalculateShipping_start s0))) = None
            \<and> activeCurrency (handleCalculateShipping_settle settled
                (run_checkout es (handleCalculateShipping_start s0))) = ''USD''
            \<and> exchangeRate (handleCalculateShipping_settle settled
                (run_checkout es (handleCalculateShipping_start s0))) = 1
            \<and> formatPrice (handleCalculateShipping_settle settled
                (run_checkout es (handleCalculateShipping_start s0))) amount
                = (''USD'', amount))"
proof -
  have settle: "handleCalculateShipping_settle settled s'
           = s'\<lparr>shippingCost := 25, isShippingCalculated := True, isCalculating := False\<rparr>"
    for s'
    using assms by (auto simp: handleCalculateShipping_settle_def)
  have start: "shippingDetails (handleCalculateShipping_start s0) = None"
    by (simp add: handleCalculateShipping_start_def)
  have "shippingDetails (run_checkout es (handleCalculateShipping_start s0)) = None"
    if "list_all (\<lambda>e. \<not> estimate_succeeds e) es"
    using start that by (rule no_success_keeps_details_null)
  then show ?thesis
    using start
    by (simp add: settle activeCurrency_def exchangeRate_def formatPrice_def)
qed

theorem shipping_failure_fallback_witness:
  "snd (calculateShippingEstimate (Env (Some ''key'')) (\<lambda>t. Inr None) ''98121'' ''Italy''
          (Some ''Messina'') offline_remote []) = Inr None
   \<and> list_all (\<lambda>e. \<not> estimate_succeeds e) [ZipChange ''98'', EstimateSettles (Inr None)]
   \<and> shippingCost (handleCalculateShipping_settle
        (snd (calculateShippingEstimate (Env (Some ''key'')) (\<lambda>t. Inr None) ''98121''
                ''Italy'' (Some ''Messina'') offline_remote []))
        (run_checkout [ZipChange ''98'', EstimateSettles (Inr None)]
           (handleCalculateShipping_start initial_checkout))) = 25
   \<and> isShippingCalculated (handleCalculateShipping_settle
        (snd (calculateShippingEstimate (Env (Some ''key'')) (\<lambda>t. Inr None) ''98121''
                ''Italy'' (Some ''Messina'') offline_remote []))
        (run_checkout [ZipChange ''98'', EstimateSettles (Inr None)]
           (handleCalculateShipping_start initial_checkout)))
   \<and> shippingDetails (handleCalculateShipping_settle
        (snd (calculateShippingEstimate (Env (Some ''key'')) (\<lambda>t. Inr None) ''98121''
                ''Italy'' (Some ''Messina'') offline_remote []))
        (run_checkout [ZipChange ''98'', EstimateSettles (Inr None)]
           (handleCalculateShipping_start initial_checkout))) = None
   \<and> activeCurrency (handleCalculateShipping_settle
        (snd (calculateShippingEstimate (Env (Some ''key'')) (\<lambda>t. Inr None) ''98121''
                ''Italy'' (Some ''Messina'') offline_remote []))
        (run_checkout [ZipChange ''98'', EstimateSettles (Inr None)]
           (handleCalculateShipping_start initial_checkout))) = ''USD''
   \<and> exchangeRate (handleCalculateShipping_settle
        (snd (calculateShippingEstimate (Env (Some ''key'')) (\<lambda>t. Inr None) ''98121''
                ''Italy'' (Some ''Messina'') offline_remote []))
        (run_checkout [ZipChange ''98'', EstimateSettles (Inr None)]
           (handleCalculateShipping_start initial_checkout))) = 1"
proof -
  let ?settled = "snd (calculateShippingEstimate (Env (Some ''key'')) (\<lambda>t. Inr None) ''98121''
                ''Italy'' (Some ''Messina'') offline_remote [])"
  let ?es = "[ZipChange ''98'', EstimateSettles (Inr None)]"
  have c: "?settled = Inr None"
    by (simp add: calculateShippingEstimate_def io_defs read_API_KEY_def falsy_def
        offline_remote_def)
  then have h: "?settled = Inr None \<or> (\<exists>e. ?settled = Inl e)" by simp
  have q: "list_all (\<lambda>e. \<not> estimate_succeeds e) ?es" by simp
  let ?s = "handleCalculateShipping_settle ?settled
              (run_checkout ?es (handleCalculateShipping_start initial_checkout))"
  note t = shipping_failure_fallback [where settled = ?settled and es = ?es
      and ?s0.0 = initial_checkout, OF h]
  from t q have r: "shippingCost ?s = 25 \<and> isShippingCalculated ?s
      \<and> shippingDetails ?s = None \<and> activeCurrency ?s = ''USD'' \<and> exchangeRate ?s = 1"
    by blast
  from c q r show ?thesis by blast
qed

text \<open>
  Claim C6, as stated, fails on the bound: the limit of five locations is a request in the
  prompt, and the client stores whatever list the parsed answer holds. With a remote answer
  of six locations the suggestion list has six entries.
\<close>

theorem suggestions_unbounded_counterexample:
  "\<not> isl (snd (zip_timer_fires (Env (Some ''key'')) parse_six_locations
                 (handleZipChange ''981'' initial_checkout) six_locations_remote []))
   \<and> length (suggestions (projr (snd (zip_timer_fires (Env (Some ''key'')) parse_six_locations
                 (handleZipChange ''981'' initial_checkout) six_locations_remote [])))) = 6"
  by (simp add: zip_timer_fires_def handleZipChange_def initial_checkout_def
      lookupZipLocation_def io_defs six_locations_remote_def parse_six_locations_def
      read_API_KEY_def falsy_def)

text \<open>
  Claim C6, amended. For every postal-code input: when its length is at least 3, a debounced
  lookup is scheduled for that input, and when the timer fires the suggestion list becomes
  exactly the list \<open>lookupZipLocation\<close> returns for it (no bound is enforced by the client);
  when its length is below 3, no timer is armed, so no lookup is issued, and the suggestion
  list is set to empty.
\<close>

theorem handleZipChange_schedules_lookup:
  "(3 \<le> length val \<longrightarrow>
      debounceRef (handleZipChange val s) = Some val
      \<and> isLookingUp (handleZipChange val s)
      \<and> suggestions (handleZipChange val s) = suggestions s
      \<and> (\<exists>results. snd (lookupZipLocation penv jp val rem tr) = Inr results
            \<and> zip_timer_fires penv jp (handleZipChange val s) rem tr
                = (fst (lookupZipLocation penv jp val rem tr),
                   Inr ((handleZipChange val s)\<lparr>debounceRef := None, suggestions := results,
                          showSuggestions := True, isLookingUp := False\<rparr>))))
   \<and> (length val < 3 \<longrightarrow>
      debounceRef (handleZipChange val s) = None
      \<and> suggestions (handleZipChange val s) = []
      \<and> \<not> showSuggestions (handleZipChange val s)
      \<and> zip_timer_fires penv jp (handleZipChange val s) rem tr
          = (tr, Inr (handleZipChange val s)))"
proof (intro conjI impI)
  assume long: "3 \<le> length val"
  obtain tr' results where l: "lookupZipLocation penv jp val rem tr = (tr', Inr results)"
    using lookupZipLocation_returns by blast
  from long have d: "debounceRef (handleZipChange val s) = Some val"
    by (simp add: handleZipChange_def)
  from l d show "\<exists>results. snd (lookupZipLocation penv jp val rem tr) = Inr results
            \<and> zip_timer_fires penv jp (handleZipChange val s) rem tr
                = (fst (lookupZipLocation penv jp val rem tr),
                   Inr ((handleZipChange val s)\<lparr>debounceRef := None, suggestions := results,
                          showSuggestions := True, isLookingUp := False\<rparr>))"
    by (simp add: zip_timer_fires_def bind_io_def return_io_def)
qed (simp_all add: handleZipChange_def zip_timer_fires_def return_io_def)

theorem handleZipChange_schedules_lookup_witness:
  "3 \<le> length ''981''
   \<and> debounceRef (handleZipChange ''981'' initial_checkout) = Some ''981''
   \<and> snd (zip_timer_fires (Env (Some ''key'')) parse_six_locations
           (handleZipChange ''981'' initial_checkout) six_locations_remote [])
       = Inr ((handleZipChange ''981'' initial_checkout)\<lparr>debounceRef := None,
               suggestions := replicate 6 sample_location, showSuggestions := True,
               isLookingUp := False\<rparr>)
   \<and> length ''98'' < 3
   \<and> suggestions (handleZipChange ''98'' initial_checkout) = []
   \<and> zip_timer_fires (Env (Some ''key'')) parse_six_locations
        (handleZipChange ''98'' initial_checkout) six_locations_remote []
       = ([], Inr (handleZipChange ''98'' initial_checkout))"
proof -
  note long = handleZipChange_schedules_lookup [where val = "''981''" and s = initial_checkout
      and penv = "Env (Some ''key'')" and jp = parse_six_locations
      and rem = six_locations_remote and tr = "[]"]
  note short = handleZipChange_schedules_lookup [where val = "''98''" and s = initial_checkout
      and penv = "Env (Some ''key'')" and jp = parse_six_locations
      and rem = six_locations_remote and tr = "[]"]
  have l: "snd (lookupZipLocation (Env (Some ''key'')) parse_six_locations ''981''
             six_locations_remote []) = Inr (replicate 6 sample_location)"
    by (simp add: lookupZipLocation_def io_defs six_locations_remote_def
        parse_six_locations_def read_API_KEY_def falsy_def)
  have h1: "3 \<le> length ''981''" and h2: "length ''98'' < 3" by simp_all
  from long h1 l have a: "debounceRef (handleZipChange ''981'' initial_checkout) = Some ''981''"
    and b: "snd (zip_timer_fires (Env (Some ''key'')) parse_six_locations
           (handleZipChange ''981'' initial_checkout) six_locations_remote [])
       = Inr ((handleZipChange ''981'' initial_checkout)\<lparr>debounceRef := None,
               suggestions := replicate 6 sample_location, showSuggestions := True,
               isLookingUp := False\<rparr>)"
    by auto
  from short h2 have c: "suggestions (handleZipChange ''98'' initial_checkout) = []"
    and d: "zip_timer_fires (Env (Some ''key'')) parse_six_locations
        (handleZipChange ''98'' initial_checkout) six_locations_remote []
       = ([], Inr (handleZipChange ''98'' initial_checkout))"
    by auto
  from h1 h2 a b c d show ?thesis by blast
qed

section \<open>Properties of the language provider\<close>

lemma brand_protected_Aura: "brand_protected ''Aura''"
  by (simp add: brand_protected_def)

lemma brand_protected_Quiet_living: "brand_protected ''Quiet living''"
  by (simp add: brand_protected_def toLowerCase_def lower_char_def)

text \<open>
  Claim C5. Whatever the current language and whatever the cache holds, \<open>translate\<close> returns
  the literal strings "Aura" and "Quiet living" unchanged and leaves the provider as it
  was: the exemption is decided on the input text alone.
\<close>

theorem translate_brand_literals_unchanged:
  "translate ''Aura'' s = (''Aura'', s)
   \<and> translate ''Quiet living'' s = (''Quiet living'', s)"
  by (simp add: translate_def brand_protected_Aura brand_protected_Quiet_living)

text \<open>
  Claim C10. Calling \<open>setLanguage\<close> with the language that is already current changes
  nothing: the language, the cache, the pending set and the \<open>isTranslating\<close> flag stay as
  they were, and so do the debounce timer and the requests in flight.
\<close>

theorem handleSetLanguage_same_language_noop:
  "handleSetLanguage (language s) s = s
   \<and> apply_event (SetLanguage (language (prov r))) r = r"
  by (simp add: handleSetLanguage_def)

lemma distinct_count_list_one: "distinct xs \<Longrightarrow> x \<in> set xs \<Longrightarrow> count_list xs x = 1"
  by (induction xs) (auto simp: count_list_0_iff)

lemma distinct_set_add: "distinct xs \<Longrightarrow> distinct (set_add x xs)"
  by (simp add: set_add_def)

lemma set_set_add: "set (set_add x xs) = insert x (set xs)"
  by (auto simp: set_add_def)

lemma translate_miss:
  assumes "language s \<noteq> ''English''" "txt \<noteq> []" "\<not> brand_protected txt"
    and "cache s (getCacheKey txt (language s)) = None"
  shows "translate txt s = (txt, s\<lparr>missingTranslations := set_add txt (missingTranslations s)\<rparr>)"
  using assms by (simp add: translate_def)

lemma translate_miss_repeat:
  assumes "language s \<noteq> ''English''" "txt \<noteq> []" "\<not> brand_protected txt"
    and "cache s (getCacheKey txt (language s)) = None"
    and "distinct (missingTranslations s)"
  shows "language (((\<lambda>q. snd (translate txt q)) ^^ n) s) = language s
       \<and> cache (((\<lambda>q. snd (translate txt q)) ^^ n) s) = cache s
       \<and> distinct (missingTranslations (((\<lambda>q. snd (translate txt q)) ^^ n) s))
       \<and> (0 < n \<longrightarrow> txt \<in> set (missingTranslations (((\<lambda>q. snd (translate txt q)) ^^ n) s)))"
proof (induction n)
  case 0
  then show ?case using assms by simp
next
  case (Suc n)
  let ?q = "((\<lambda>q. snd (translate txt q)) ^^ n) s"
  from Suc assms have "translate txt ?q
      = (txt, ?q\<lparr>missingTranslations := set_add txt (missingTranslations ?q)\<rparr>)"
    by (intro translate_miss) simp_all
  with Suc show ?case by (simp add: distinct_set_add set_set_add)
qed

lemma not_protected_Shop: "\<not> brand_protected ''Shop''"
  by (simp add: brand_protected_def toLowerCase_def lower_char_def)

text \<open>
  Claim C3. For a non-empty text that is not brand-protected and has no cache entry for the
  current language, which is not English, \<open>translate\<close> returns the text unchanged and adds
  it to the pending set; every further call returns the text again, and after any number of
  calls the pending set holds the text exactly once.
\<close>

theorem translate_miss_registers_once:
  assumes "language s \<noteq> ''English''" and "txt \<noteq> []" and "\<not> brand_protected txt"
    and "cache s (getCacheKey txt (language s)) = None"
    and "distinct (missingTranslations s)"
  shows "translate txt s = (txt, s\<lparr>missingTranslations := set_add txt (missingTranslations s)\<rparr>)
       \<and> txt \<in> set (missingTranslations (snd (translate txt s)))
       \<and> fst (translate txt (((\<lambda>q. snd (translate txt q)) ^^ n) s)) = txt
       \<and> count_list (missingTranslations (((\<lambda>q. snd (translate txt q)) ^^ Suc n) s)) txt = 1"
proof -
  have first: "translate txt s
      = (txt, s\<lparr>missingTranslations := set_add txt (missingTranslations s)\<rparr>)"
    using assms by (simp add: translate_miss)
  let ?q = "((\<lambda>q. snd (translate txt q)) ^^ n) s"
  have rep: "language ?q = language s" "cache ?q = cache s"
    using translate_miss_repeat [OF assms, of n] by simp_all
  have again: "translate txt ?q
      = (txt, ?q\<lparr>missingTranslations := set_add txt (missingTranslations ?q)\<rparr>)"
    using assms rep by (intro translate_miss) simp_all
  have "distinct (missingTranslations (((\<lambda>q. snd (translate txt q)) ^^ Suc n) s))"
       "txt \<in> set (missingTranslations (((\<lambda>q. snd (translate txt q)) ^^ Suc n) s))"
    using translate_miss_repeat [OF assms, of "Suc n"] by blast+
  then have "count_list (missingTranslations (((\<lambda>q. snd (translate txt q)) ^^ Suc n) s)) txt = 1"
    by (rule distinct_count_list_one)
  with first again show ?thesis by (simp add: set_set_add)
qed

theorem translate_miss_registers_once_witness:
  "translate ''Shop'' (handleSetLanguage ''French'' initial_provider)
     = (''Shop'', (handleSetLanguage ''French'' initial_provider)\<lparr>missingTranslations := [''Shop'']\<rparr>)
   \<and> count_list (missingTranslations
        (snd (translate ''Shop'' (snd (translate ''Shop''
           (snd (translate ''Shop'' (handleSetLanguage ''French'' initial_provider)))))))) ''Shop'' = 1"
proof -
  let ?s = "handleSetLanguage ''French'' initial_provider"
  have s: "?s = \<lparr>language = ''French'', cache = Map.empty, isTranslating = True, missingTranslations = []\<rparr>"
    by (simp add: handleSetLanguage_def initial_provider_def)
  have h: "language ?s \<noteq> ''English''" "''Shop'' \<noteq> []" "\<not> brand_protected ''Shop''"
    "cache ?s (getCacheKey ''Shop'' (language ?s)) = None" "distinct (missingTranslations ?s)"
    by (simp_all add: s not_protected_Shop)
  note t = translate_miss_registers_once [OF h, of 2]
  from t have a: "translate ''Shop'' ?s
      = (''Shop'', ?s\<lparr>missingTranslations := set_add ''Shop'' (missingTranslations ?s)\<rparr>)"
    by blast
  from t have "count_list (missingTranslations
      (((\<lambda>q. snd (translate ''Shop'' q)) ^^ Suc 2) ?s)) ''Shop'' = 1"
    by blast
  then have b: "count_list (missingTranslations
        (snd (translate ''Shop'' (snd (translate ''Shop''
           (snd (translate ''Shop'' ?s))))))) ''Shop'' = 1"
    by (simp only: numeral_2_eq_2 funpow.simps o_apply id_apply)
  have c: "set_add ''Shop'' (missingTranslations ?s) = [''Shop'']"
    by (simp add: s set_add_def)
  from a b c show ?thesis by simp
qed

text \<open>
  Claim C1, evaluated on the code. The provider is in French with "Shop" pending and an
  empty cache, the API key is present, and the request fails. \<open>translateBatch\<close> catches the
  failure and returns its input, \<open>processTranslations\<close> stores that input as the translation:
  the cache is not left as it was, it now maps the key of "Shop" to "Shop". The handler's
  own \<^verbatim>\<open>catch\<close> branch, which leaves the cache alone, is not reached. The text still resolves
  to its original form.
\<close>

theorem failed_batch_is_cached:
  "processTranslations (Env (Some ''key'')) jp
     \<lparr>language = ''French'', cache = Map.empty, isTranslating = True,
      missingTranslations = [''Shop'']\<rparr> offline_remote []
   = ([(GenerateContent ''gemini-2.5-flash'' (TranslateBatchPrompt [''Shop''] ''French''),
        Inl (Error ''Failed to fetch''))],
      Inr \<lparr>language = ''French'', cache = [''French|Shop'' \<mapsto> ''Shop''],
           isTranslating = False, missingTranslations = [''Shop'']\<rparr>)
   \<and> cache (prov (run [SetLanguage ''French'', Translate ''Shop'', TimerFires,
                BatchSettles 0 (snd (translateBatch (Env (Some ''key'')) jp [''Shop''] ''French''
                   offline_remote []))] initial_runtime)) ''French|Shop'' = Some ''Shop''
   \<and> translate ''Shop''
       \<lparr>language = ''French'', cache = [''French|Shop'' \<mapsto> ''Shop''],
        isTranslating = False, missingTranslations = [''Shop'']\<rparr>
     = (''Shop'', \<lparr>language = ''French'', cache = [''French|Shop'' \<mapsto> ''Shop''],
                 isTranslating = False, missingTranslations = [''Shop'']\<rparr>)"
  by (simp add: processTranslations_def Let_def needed_texts_def falsy_def getCacheKey_def
      translateBatch_def io_defs offline_remote_def read_API_KEY_def
      processTranslations_resume_def merge_results_def enumerate_eq_zip js_index_def truthy_def
      run_def initial_runtime_def initial_provider_def handleSetLanguage_def translate_def
      brand_protected_def toLowerCase_def lower_char_def set_add_def)

text \<open>
  The invariant holds initially and every event preserves it.
\<close>

lemma bar_split_unique:
  "CHR ''|'' \<notin> set a \<Longrightarrow> CHR ''|'' \<notin> set b \<Longrightarrow> a @ CHR ''|'' # t = b @ CHR ''|'' # u
     \<Longrightarrow> a = b \<and> t = u"
proof (induction a arbitrary: b)
  case Nil
  then show ?case by (cases b) auto
next
  case (Cons x a)
  then show ?case by (cases b) auto
qed

lemma LANGUAGES_no_bar: "lang \<in> set LANGUAGES \<Longrightarrow> CHR ''|'' \<notin> set lang"
  by (auto simp: LANGUAGES_def)

lemma getCacheKey_inj:
  assumes "lang \<in> set LANGUAGES" "lang' \<in> set LANGUAGES"
    and "getCacheKey txt lang = getCacheKey txt' lang'"
  shows "lang = lang' \<and> txt = txt'"
  using assms bar_split_unique [of lang lang' "txt" txt']
  by (simp add: getCacheKey_def LANGUAGES_no_bar)

lemma fold_merge_entry:
  assumes "fold (\<lambda>(index, txt) newCache.
             if truthy (js_index results index)
             then newCache(getCacheKey txt lang := js_index results index)
             else newCache) ps prev k = Some v"
  shows "prev k = Some v \<or> (v \<noteq> [] \<and> (\<exists>p \<in> set ps. k = getCacheKey (snd p) lang))"
  using assms
proof (induction ps arbitrary: prev)
  case Nil
  then show ?case by simp
next
  case (Cons p ps)
  obtain i t where p: "p = (i, t)" by (cases p)
  let ?prev' = "if truthy (js_index results i)
             then prev(getCacheKey t lang := js_index results i) else prev"
  from Cons.prems p have "fold (\<lambda>(index, txt) newCache.
             if truthy (js_index results index)
             then newCache(getCacheKey txt lang := js_index results index)
             else newCache) ps ?prev' k = Some v"
    by simp
  from Cons.IH [OF this]
  have "?prev' k = Some v \<or> (v \<noteq> [] \<and> (\<exists>p \<in> set ps. k = getCacheKey (snd p) lang))" .
  then show ?case
    using p by (auto simp: truthy_def split: if_splits option.splits)
qed

lemma merge_results_entry:
  assumes "merge_results lang needed results prev k = Some v"
  shows "prev k = Some v \<or> (v \<noteq> [] \<and> (\<exists>txt \<in> set needed. k = getCacheKey txt lang))"
proof -
  from fold_merge_entry [OF assms [unfolded merge_results_def]]
  show ?thesis
    by (auto simp: in_set_enumerate_eq)
qed

lemma runtime_inv_initial: "runtime_inv initial_runtime"
  by (simp add: runtime_inv_def initial_runtime_def initial_provider_def LANGUAGES_def)

lemma translate_state:
  "snd (translate txt p) = p
   \<or> (translatable txt \<and> language p \<noteq> ''English''
       \<and> snd (translate txt p) = p\<lparr>missingTranslations := set_add txt (missingTranslations p)\<rparr>)"
  by (simp add: translate_def translatable_def split: option.splits)

lemma runtime_inv_Translate:
  assumes "runtime_inv r"
  shows "runtime_inv (apply_event (Translate txt) r)"
  using assms translate_state [of "txt" "prov r"]
  by (auto simp: runtime_inv_def set_set_add)

lemma runtime_inv_SetLanguage:
  assumes "runtime_inv r" and "lang \<in> set LANGUAGES"
  shows "runtime_inv (apply_event (SetLanguage lang) r)"
  using assms by (auto simp: runtime_inv_def handleSetLanguage_def)

lemma needed_texts_subset: "set (needed_texts p) \<subseteq> set (missingTranslations p)"
  by (auto simp: needed_texts_def)

lemma runtime_inv_TimerFires:
  assumes "runtime_inv r"
  shows "runtime_inv (apply_event TimerFires r)"
  using assms needed_texts_subset [of "prov r"]
  by (auto simp: runtime_inv_def request_ok_def)

lemma runtime_inv_BatchSettles:
  assumes "runtime_inv r"
  shows "runtime_inv (apply_event (BatchSettles i settled) r)"
proof (cases "i < length (inflight r)")
  case False
  with assms show ?thesis by simp
next
  case True
  let ?q = "inflight r ! i"
  from True assms have q: "request_ok ?q"
    by (simp add: runtime_inv_def)
  have sub: "set (take i (inflight r) @ drop (Suc i) (inflight r)) \<subseteq> set (inflight r)"
    by (auto dest: in_set_takeD in_set_dropD)
  have c: "cache_entry_ok k v"
    if "cache (processTranslations_resume (fst ?q) (snd ?q) settled (prov r)) k = Some v"
    for k v
  proof (cases settled)
    case (Inl e)
    with that assms show ?thesis
      by (simp add: processTranslations_resume_def runtime_inv_def)
  next
    case (Inr results)
    with that have "merge_results (snd ?q) (fst ?q) results (cache (prov r)) k = Some v"
      by (simp add: processTranslations_resume_def)
    from merge_results_entry [OF this] q assms show ?thesis
      by (auto simp: runtime_inv_def request_ok_def cache_entry_ok_def)
  qed
  have rest: "language (processTranslations_resume (fst ?q) (snd ?q) settled (prov r))
                = language (prov r)"
    "\<not> isTranslating (processTranslations_resume (fst ?q) (snd ?q) settled (prov r))"
    "missingTranslations (processTranslations_resume (fst ?q) (snd ?q) settled (prov r))
                = missingTranslations (prov r)"
    by (simp_all add: processTranslations_resume_def split: sum.splits)
  from True assms sub c rest show ?thesis
    by (auto simp: runtime_inv_def)
qed

lemma runtime_inv_apply_event:
  assumes "runtime_inv r" and "ui_event e"
  shows "runtime_inv (apply_event e r)"
  using assms
  by (cases e) (simp_all only: runtime_inv_Translate runtime_inv_SetLanguage
      runtime_inv_TimerFires runtime_inv_BatchSettles ui_event.simps)

lemma runtime_inv_run:
  assumes "runtime_inv r" and "\<forall>e \<in> set es. ui_event e"
  shows "runtime_inv (run es r)"
  using assms
  by (induction es arbitrary: r) (simp_all add: run_def runtime_inv_apply_event)

lemma cached_entry_translatable:
  assumes "runtime_inv r"
    and "cache (prov r) (getCacheKey txt' (language (prov r))) = Some v"
  shows "v \<noteq> [] \<and> translatable txt' \<and> language (prov r) \<noteq> ''English''"
proof -
  from assms have ok: "cache_entry_ok (getCacheKey txt' (language (prov r))) v"
    and l: "language (prov r) \<in> set LANGUAGES"
    by (simp_all add: runtime_inv_def)
  from ok obtain lang t where "lang \<in> set LANGUAGES" "lang \<noteq> ''English''" "translatable t"
    "getCacheKey txt' (language (prov r)) = getCacheKey t lang" "v \<noteq> []"
    by (auto simp: cache_entry_ok_def)
  with l getCacheKey_inj [of "language (prov r)" lang txt' t] show ?thesis
    by auto
qed

lemma shop_run:
  "run [SetLanguage ''French'', Translate ''Shop'', TimerFires,
        BatchSettles 0 (Inr [''Boutique''])] initial_runtime
   = \<lparr>prov = \<lparr>language = ''French'', cache = [''French|Shop'' \<mapsto> ''Boutique''],
              isTranslating = False, missingTranslations = [''Shop'']\<rparr>,
      timer = False, inflight = []\<rparr>"
  by (simp add: run_def initial_runtime_def initial_provider_def handleSetLanguage_def
      translate_def brand_protected_def toLowerCase_def lower_char_def set_add_def
      getCacheKey_def needed_texts_def falsy_def processTranslations_resume_def
      merge_results_def enumerate_eq_zip js_index_def truthy_def)

text \<open>
  Claim C2. In every state the provider reaches, when the current language is not English
  and the cache holds an entry under the key of that language and a text, \<open>translate\<close>
  returns the cached value and leaves the provider unchanged: the text is not added to the
  pending set, nothing is sent, and the text is not among those the next batch would
  request.
\<close>

theorem cached_translation_is_returned:
  assumes "list_all ui_event es"
    and "r = run es initial_runtime"
    and "language (prov r) \<noteq> ''English''"
    and "cache (prov r) (getCacheKey txt' (language (prov r))) = Some v"
  shows "translate txt' (prov r) = (v, prov r)
       \<and> apply_event (Translate txt') r = r
       \<and> txt' \<notin> set (needed_texts (prov r))"
proof -
  from assms(1,2) have "runtime_inv r"
    by (simp add: runtime_inv_run runtime_inv_initial list_all_iff)
  from cached_entry_translatable [OF this assms(4)]
  have v: "v \<noteq> []" and t: "translatable txt'" by simp_all
  from v t assms(3,4) have tr: "translate txt' (prov r) = (v, prov r)"
    by (simp add: translate_def translatable_def)
  from v assms(4) have "txt' \<notin> set (needed_texts (prov r))"
    by (simp add: needed_texts_def falsy_def)
  with tr show ?thesis by simp
qed

theorem cached_translation_is_returned_witness:
  "list_all ui_event [SetLanguage ''French'', Translate ''Shop'', TimerFires,
                      BatchSettles 0 (Inr [''Boutique''])]
   \<and> language (prov (run [SetLanguage ''French'', Translate ''Shop'', TimerFires,
        BatchSettles 0 (Inr [''Boutique''])] initial_runtime)) = ''French''
   \<and> cache (prov (run [SetLanguage ''French'', Translate ''Shop'', TimerFires,
        BatchSettles 0 (Inr [''Boutique''])] initial_runtime)) (getCacheKey ''Shop'' ''French'')
       = Some ''Boutique''
   \<and> fst (translate ''Shop'' (prov (run [SetLanguage ''French'', Translate ''Shop'', TimerFires,
        BatchSettles 0 (Inr [''Boutique''])] initial_runtime))) = ''Boutique''
   \<and> ''Shop'' \<notin> set (needed_texts (prov (run [SetLanguage ''French'', Translate ''Shop'',
        TimerFires, BatchSettles 0 (Inr [''Boutique''])] initial_runtime)))"
proof -
  let ?es = "[SetLanguage ''French'', Translate ''Shop'', TimerFires,
              BatchSettles 0 (Inr [''Boutique''])]"
  let ?r = "run ?es initial_runtime"
  have h1: "list_all ui_event ?es" by (simp add: LANGUAGES_def)
  have h3: "language (prov ?r) \<noteq> ''English''" and l: "language (prov ?r) = ''French''"
    by (simp_all add: shop_run)
  have h4: "cache (prov ?r) (getCacheKey ''Shop'' (language (prov ?r))) = Some ''Boutique''"
    by (simp add: shop_run getCacheKey_def)
  from cached_translation_is_returned [OF h1 refl h3 h4] h1 l h4
  show ?thesis by simp
qed

text \<open>
  Claim C4. When the current language is English, \<open>translate\<close> returns its input and leaves
  the provider unchanged, whatever the cache holds; and in no state the provider reaches does
  the cache hold an entry under an English key.
\<close>

theorem english_is_pass_through:
  assumes "list_all ui_event es"
  shows "(language p = ''English'' \<longrightarrow>
            translate txt' p = (txt', p)
            \<and> translate txt' (p\<lparr>cache := c\<rparr>) = (txt', p\<lparr>cache := c\<rparr>))
       \<and> cache (prov (run es initial_runtime)) (getCacheKey txt' ''English'') = None"
proof -
  have inv: "runtime_inv (run es initial_runtime)"
    using assms by (simp add: runtime_inv_run runtime_inv_initial list_all_iff)
  have "cache (prov (run es initial_runtime)) (getCacheKey txt' ''English'') = None"
  proof (rule ccontr)
    assume "cache (prov (run es initial_runtime)) (getCacheKey txt' ''English'') \<noteq> None"
    then obtain v where "cache (prov (run es initial_runtime)) (getCacheKey txt' ''English'')
        = Some v" by blast
    with inv have "cache_entry_ok (getCacheKey txt' ''English'') v"
      by (simp add: runtime_inv_def)
    then obtain lang t where "lang \<in> set LANGUAGES" "lang \<noteq> ''English''"
      "getCacheKey txt' ''English'' = getCacheKey t lang"
      by (auto simp: cache_entry_ok_def)
    with getCacheKey_inj [of "''English''" lang txt' t] show False
      by (simp add: LANGUAGES_def)
  qed
  then show ?thesis by (simp add: translate_def)
qed

theorem english_is_pass_through_witness:
  "list_all ui_event [SetLanguage ''French'', Translate ''Shop'', TimerFires,
                      BatchSettles 0 (Inr [''Boutique'']), SetLanguage ''English'']
   \<and> language (prov (run [SetLanguage ''French'', Translate ''Shop'', TimerFires,
        BatchSettles 0 (Inr [''Boutique'']), SetLanguage ''English''] initial_runtime))
       = ''English''
   \<and> translate ''Shop'' (prov (run [SetLanguage ''French'', Translate ''Shop'', TimerFires,
        BatchSettles 0 (Inr [''Boutique'']), SetLanguage ''English''] initial_runtime))
       = (''Shop'', prov (run [SetLanguage ''French'', Translate ''Shop'', TimerFires,
        BatchSettles 0 (Inr [''Boutique'']), SetLanguage ''English''] initial_runtime))
   \<and> cache (prov (run [SetLanguage ''French'', Translate ''Shop'', TimerFires,
        BatchSettles 0 (Inr [''Boutique'']), SetLanguage ''English''] initial_runtime))
        (getCacheKey ''Shop'' ''English'') = None"
proof -
  let ?es = "[SetLanguage ''French'', Translate ''Shop'', TimerFires,
              BatchSettles 0 (Inr [''Boutique'']), SetLanguage ''English'']"
  let ?r = "run ?es initial_runtime"
  have h1: "list_all ui_event ?es" by (simp add: LANGUAGES_def)
  have "?r = apply_event (SetLanguage ''English'')
       (run [SetLanguage ''French'', Translate ''Shop'', TimerFires,
             BatchSettles 0 (Inr [''Boutique''])] initial_runtime)"
    by (simp add: run_def)
  then have l: "language (prov ?r) = ''English''"
    by (simp add: shop_run handleSetLanguage_def)
  from english_is_pass_through [OF h1, of "prov ?r" "''Shop''"] h1 l
  show ?thesis by simp
qed

end
